theory Spec2Isabelle
  imports Complex_Main "HOL-Library.Sublist" "HOL-Library.Multiset" "HOL-Library.AList"
    "HOL-Library.Char_ord" "HOL-Library.List_Lexorder"
begin

section \<open>Order book synchroniser: the handler registered by listenOrderBook\<close>

text \<open>
  Prices and amounts are the results of \<open>parseFloat\<close> on the wire strings; the model
  works on the parsed values and idealises finite JavaScript numbers as real numbers
  (\<open>NaN\<close> is outside the model). \<open>===\<close> on numbers is equality of reals.
\<close>

record market =
  market_id :: string
  symbol :: string
  precision_amount :: real

text \<open>A ticker of the store; \<open>last\<close> is absent until the first ticker event.\<close>

record ticker =
  ticker_symbol :: string
  ticker_last :: "real option"

text \<open>
  A level of the book. The snapshot branch builds levels without a \<open>total\<close> field,
  the update branch pushes them with \<open>total: 0\<close>.
\<close>

record OrderBookOrders =
  price :: real
  amount :: real
  total :: "real option"

record OrderBook =
  bids :: "OrderBookOrders list"
  asks :: "OrderBookOrders list"

text \<open>The parsed message: \<open>data.action\<close> and the two lists of \<open>data.data\<close>.\<close>

record books_message =
  action :: string
  data_bids :: "(real \<times> real) list"
  data_asks :: "(real \<times> real) list"

text \<open>
  Modelled from the spec: \<open>multiply\<close> of utils/safe-math is not among the sources; the
  spec has the amount "multiplied by the market's amount-precision factor".
\<close>

definition multiply :: "real \<Rightarrow> real \<Rightarrow> real" where
  "multiply a b = a * b"

text \<open>The callback of \<open>reduce\<close> in the snapshot branch, and the reduction from \<open>[]\<close>.\<close>

definition snapshot_step :: "market \<Rightarrow> OrderBookOrders list \<Rightarrow> real \<times> real \<Rightarrow> OrderBookOrders list" where
  "snapshot_step mkt acc pa =
     (case pa of (rPrice, rAmount) \<Rightarrow>
        if rAmount = 0 then acc
        else acc @ [\<lparr>price = rPrice,
                     amount = multiply rAmount (precision_amount mkt),
                     total = None\<rparr>])"

definition snapshot_side :: "market \<Rightarrow> (real \<times> real) list \<Rightarrow> OrderBookOrders list" where
  "snapshot_side mkt raw = foldl (snapshot_step mkt) [] raw"

text \<open>\<open>Array.prototype.findIndex\<close>: the first index whose element satisfies the test; \<open>None\<close> is \<open>-1\<close>.\<close>

fun findIndex :: "('a \<Rightarrow> bool) \<Rightarrow> 'a list \<Rightarrow> nat option" where
  "findIndex P [] = None"
| "findIndex P (x # xs) = (if P x then Some 0 else map_option Suc (findIndex P xs))"

text \<open>\<open>xs.splice(i, 1)\<close>: the element at index \<open>i\<close> is removed.\<close>

definition splice1 :: "'a list \<Rightarrow> nat \<Rightarrow> 'a list" where
  "splice1 xs i = take i xs @ drop (Suc i) xs"

text \<open>
  The \<open>for ... of\<close> loop over one side of an update, inside the callback given to
  \<open>sides.forEach\<close>. A \<open>return\<close> in the loop body leaves that callback, so the pairs
  after it are not visited: the result is then the side as it stands.
\<close>

fun update_side :: "market \<Rightarrow> OrderBookOrders list \<Rightarrow> (real \<times> real) list \<Rightarrow> OrderBookOrders list" where
  "update_side mkt lv [] = lv"
| "update_side mkt lv ((rPrice, rAmount) # rest) =
     (let index = findIndex (\<lambda>b. price b = rPrice) lv in
      if rAmount = 0 \<and> index \<noteq> None then splice1 lv (the index)
      else if rAmount \<noteq> 0 then
        (case index of
           None \<Rightarrow> lv @ [\<lparr>price = rPrice,
                          amount = multiply rAmount (precision_amount mkt),
                          total = Some 0\<rparr>]
         | Some i \<Rightarrow>
             update_side mkt
               (lv[i := (lv ! i)\<lparr>amount := multiply rAmount (precision_amount mkt)\<rparr>]) rest)
      else update_side mkt lv rest)"

definition apply_snapshot :: "market \<Rightarrow> books_message \<Rightarrow> OrderBook \<Rightarrow> OrderBook" where
  "apply_snapshot mkt msg ob =
     (if action msg = ''snapshot''
      then ob\<lparr>bids := snapshot_side mkt (data_bids msg),
              asks := snapshot_side mkt (data_asks msg)\<rparr>
      else ob)"

definition apply_update :: "market \<Rightarrow> books_message \<Rightarrow> OrderBook \<Rightarrow> OrderBook" where
  "apply_update mkt msg ob =
     (if action msg = ''update''
      then ob\<lparr>bids := update_side mkt (bids ob) (data_bids msg),
              asks := update_side mkt (asks ob) (data_asks msg)\<rparr>
      else ob)"

text \<open>The book after the snapshot and update branches, before the filter.\<close>

definition merge_message :: "market \<Rightarrow> books_message \<Rightarrow> OrderBook \<Rightarrow> OrderBook" where
  "merge_message mkt msg ob = apply_update mkt msg (apply_snapshot mkt msg ob)"

text \<open>\<open>ticker?.last || 0\<close> for the ticker found by the market's symbol.\<close>

definition lastPrice :: "ticker list \<Rightarrow> market \<Rightarrow> real" where
  "lastPrice tickers mkt =
     (case find (\<lambda>t. ticker_symbol t = symbol mkt) tickers of
        None \<Rightarrow> 0
      | Some t \<Rightarrow> (case ticker_last t of None \<Rightarrow> 0 | Some l \<Rightarrow> if l = 0 then 0 else l))"

definition filter_stale :: "real \<Rightarrow> OrderBook \<Rightarrow> OrderBook" where
  "filter_stale lp ob =
     ob\<lparr>asks := filter (\<lambda>a. price a \<ge> lp) (asks ob),
        bids := filter (\<lambda>b. price b \<le> lp) (bids ob)\<rparr>"

text \<open>
  Modelled from the spec: \<open>sortOrderBook\<close> of utils/orderbook is not among the sources;
  the spec has "sort bids descending by price, asks ascending by price".
\<close>

definition sortOrderBook :: "OrderBook \<Rightarrow> OrderBook" where
  "sortOrderBook ob =
     ob\<lparr>asks := sort_key price (asks ob),
        bids := sort_key (\<lambda>b. - price b) (bids ob)\<rparr>"

fun running_total :: "real \<Rightarrow> OrderBookOrders list \<Rightarrow> OrderBookOrders list" where
  "running_total acc [] = []"
| "running_total acc (l # ls) =
     l\<lparr>total := Some (acc + amount l)\<rparr> # running_total (acc + amount l) ls"

text \<open>
  Modelled from the spec: \<open>calcOrderBookTotal\<close> of utils/orderbook is not among the
  sources; the spec has "recompute cumulative total per side (running sum of amount from
  best price outward)".
\<close>

definition calcOrderBookTotal :: "OrderBook \<Rightarrow> OrderBook" where
  "calcOrderBookTotal ob =
     ob\<lparr>bids := running_total 0 (bids ob), asks := running_total 0 (asks ob)\<rparr>"

text \<open>
  The handler stored in \<open>messageHandlers.books\<close>. The closure's \<open>orderBook\<close> goes in,
  and the value returned is both its new content and the argument of the callback.
\<close>

definition books_handler :: "ticker list \<Rightarrow> market \<Rightarrow> books_message \<Rightarrow> OrderBook \<Rightarrow> OrderBook" where
  "books_handler tickers mkt msg ob =
     calcOrderBookTotal (sortOrderBook (filter_stale (lastPrice tickers mkt) (merge_message mkt msg ob)))"


section \<open>Streaming session: listenOHLCV, listenOrderBook and their teardowns\<close>

text \<open>
  The session is a state record and every operation returns the new state. A pending
  \<open>setTimeout\<close> is an entry of \<open>timers\<close>; it runs when \<open>fire_timer\<close> is applied to its
  id. The mutable variables of one call (\<open>timeoutId\<close>, \<open>orderBook\<close>) live in a frame of
  the store \<open>frames\<close>, allocated when the call starts; the closures the call creates (the
  handler, the timer callbacks, the returned teardown) carry the frame's address and the
  values they close over. Consumer callbacks are identified by a number. The keepalive
  (ping and pong) and the routing of \<open>onMessage\<close> are not part of the model.
\<close>

record topic =
  channel :: string
  instId :: string

text \<open>The frames given to \<open>ws.send\<close>: \<open>{op: 'subscribe', args}\<close> and \<open>{op: 'unsubscribe', args}\<close>.\<close>

datatype ws_frame = Subscribe "topic list" | Unsubscribe "topic list"

record OHLCVOptions =
  opts_symbol :: string
  opts_interval :: string

type_synonym callback = nat

text \<open>
  The values of \<open>messageHandlers\<close>: the two handlers set at construction, the candle
  handler of \<open>listenOHLCV\<close> (it closes over the callback) and the handler of
  \<open>listenOrderBook\<close> (it closes over the frame holding \<open>orderBook\<close>, the market and the
  callback; on a message it applies \<open>books_handler\<close>).
\<close>

datatype handler =
    HandleTickerEvents
  | HandleFundingRateEvents
  | CandleHandler callback
  | BooksHandler nat market callback

text \<open>
  The callbacks given to \<open>setTimeout\<close>: the retry of the whole call while the markets
  are not loaded, and \<open>waitForConnectedAndSubscribe\<close> of a call whose socket is not open.
\<close>

datatype timer_action =
    RetryListenOHLCV OHLCVOptions callback
  | RetryListenOrderBook string callback
  | WaitConnectedOHLCV nat topic callback
  | WaitConnectedOrderBook nat market callback topic

record frame =
  timeoutId :: "nat option"
  orderBook :: OrderBook

record session =
  store_loaded_markets :: bool
  store_markets :: "market list"
  store_tickers :: "ticker list"
  isConnected :: bool
  isDisposed :: bool
  topics :: "(string \<times> topic list) list"
  messageHandlers :: "(string \<times> handler) list"
  timers :: "(nat \<times> timer_action) list"
  next_timer :: nat
  frames :: "nat \<Rightarrow> frame"
  next_frame :: nat
  sent :: "ws_frame list"

text \<open>
  The functions a call returns: the one of the not-loaded branch, which only clears the
  call's own timer; \<open>() => {}\<close> when the market is unknown; and the full teardowns.
\<close>

datatype teardown =
    ClearRetry nat
  | Noop
  | TeardownOHLCV nat topic
  | TeardownOrderBook nat topic

text \<open>
  \<open>JSON.stringify(topic)\<close> for a topic whose channel and instrument id need no escaping.
\<close>

definition JSON_stringify_topic :: "topic \<Rightarrow> string" where
  \<open>JSON_stringify_topic tp =
     ''{"channel":"'' @ channel tp @ ''","instId":"'' @ instId tp @ ''"}''\<close>

definition setTimeout :: "timer_action \<Rightarrow> session \<Rightarrow> nat \<times> session" where
  "setTimeout act s =
     (next_timer s,
      s\<lparr>timers := timers s @ [(next_timer s, act)], next_timer := Suc (next_timer s)\<rparr>)"

definition clearTimeout :: "nat \<Rightarrow> session \<Rightarrow> session" where
  "clearTimeout tid s = s\<lparr>timers := AList.delete tid (timers s)\<rparr>"

text \<open>Entering a call: \<open>let timeoutId = null\<close> and, in listenOrderBook, the empty \<open>orderBook\<close>.\<close>

definition new_frame :: "session \<Rightarrow> nat \<times> session" where
  "new_frame s =
     (next_frame s,
      s\<lparr>frames := (frames s)(next_frame s := \<lparr>timeoutId = None, orderBook = \<lparr>bids = [], asks = []\<rparr>\<rparr>),
        next_frame := Suc (next_frame s)\<rparr>)"

definition set_timeoutId :: "nat \<Rightarrow> nat option \<Rightarrow> session \<Rightarrow> session" where
  "set_timeoutId cid v s = s\<lparr>frames := (frames s)(cid := (frames s cid)\<lparr>timeoutId := v\<rparr>)\<rparr>"

text \<open>\<open>if (timeoutId) { clearTimeout(timeoutId); timeoutId = null; }\<close>\<close>

definition clear_pending :: "nat \<Rightarrow> session \<Rightarrow> session" where
  "clear_pending cid s =
     (case timeoutId (frames s cid) of
        None \<Rightarrow> s
      | Some tid \<Rightarrow> set_timeoutId cid None (clearTimeout tid s))"

text \<open>\<open>this.ws?.send?.(...)\<close>; every call of it here is under \<open>isConnected\<close>.\<close>

definition send :: "ws_frame \<Rightarrow> session \<Rightarrow> session" where
  "send f s = s\<lparr>sent := sent s @ [f]\<rparr>"

definition waitForConnectedAndSubscribe_ohlcv :: "nat \<Rightarrow> topic \<Rightarrow> callback \<Rightarrow> session \<Rightarrow> session" where
  "waitForConnectedAndSubscribe_ohlcv cid tp cb s =
     (if isConnected s then
        (if \<not> isDisposed s then
           (let s1 = s\<lparr>messageHandlers :=
                        AList.update (JSON_stringify_topic tp) (CandleHandler cb) (messageHandlers s)\<rparr>;
                s2 = send (Subscribe [tp]) s1
            in s2\<lparr>topics := AList.update (JSON_stringify_topic tp) [tp] (topics s2)\<rparr>)
         else s)
      else (case setTimeout (WaitConnectedOHLCV cid tp cb) s of
              (tid, s') \<Rightarrow> set_timeoutId cid (Some tid) s'))"

text \<open>
  \<open>INTERVAL\<close>, the table from the option's interval to the channel suffix, is not among
  the sources and is a parameter.
\<close>

definition listenOHLCV :: "(string \<Rightarrow> string) \<Rightarrow> OHLCVOptions \<Rightarrow> callback \<Rightarrow> session \<Rightarrow> teardown \<times> session" where
  "listenOHLCV INTERVAL opts cb s =
     (case new_frame s of (cid, s0) \<Rightarrow>
        if \<not> store_loaded_markets s0 then
          (case setTimeout (RetryListenOHLCV opts cb) s0 of
             (tid, s1) \<Rightarrow> (ClearRetry cid, set_timeoutId cid (Some tid) s1))
        else
          (case find (\<lambda>m. symbol m = opts_symbol opts) (store_markets s0) of
             None \<Rightarrow> (Noop, s0)
           | Some mkt \<Rightarrow>
               (let interval = INTERVAL (opts_interval opts);
                    tp = \<lparr>channel = ''candle'' @ interval, instId = market_id mkt\<rparr>
                in (TeardownOHLCV cid tp, waitForConnectedAndSubscribe_ohlcv cid tp cb s0))))"

definition waitForConnectedAndSubscribe_books :: "nat \<Rightarrow> market \<Rightarrow> callback \<Rightarrow> topic \<Rightarrow> session \<Rightarrow> session" where
  "waitForConnectedAndSubscribe_books cid mkt cb tp s =
     (if isConnected s then
        (if \<not> isDisposed s then
           (let s1 = s\<lparr>messageHandlers :=
                        AList.update ''books'' (BooksHandler cid mkt cb) (messageHandlers s)\<rparr>;
                s2 = send (Subscribe [tp]) s1
            in s2\<lparr>topics := AList.update ''orderBook'' [tp] (topics s2)\<rparr>)
         else s)
      else (case setTimeout (WaitConnectedOrderBook cid mkt cb tp) s of
              (tid, s') \<Rightarrow> set_timeoutId cid (Some tid) s'))"

definition listenOrderBook :: "string \<Rightarrow> callback \<Rightarrow> session \<Rightarrow> teardown \<times> session" where
  "listenOrderBook sy cb s =
     (case new_frame s of (cid, s0) \<Rightarrow>
        if \<not> store_loaded_markets s0 then
          (case setTimeout (RetryListenOrderBook sy cb) s0 of
             (tid, s1) \<Rightarrow> (ClearRetry cid, set_timeoutId cid (Some tid) s1))
        else
          (case find (\<lambda>m. symbol m = sy) (store_markets s0) of
             None \<Rightarrow> (Noop, s0)
           | Some mkt \<Rightarrow>
               (let tp = \<lparr>channel = ''books'', instId = market_id mkt\<rparr>
                in (TeardownOrderBook cid tp, waitForConnectedAndSubscribe_books cid mkt cb tp s0))))"

fun run_teardown :: "teardown \<Rightarrow> session \<Rightarrow> session" where
  "run_teardown (ClearRetry cid) s = clear_pending cid s"
| "run_teardown Noop s = s"
| "run_teardown (TeardownOHLCV cid tp) s =
     (let s1 = s\<lparr>messageHandlers := AList.delete (JSON_stringify_topic tp) (messageHandlers s)\<rparr>;
          s2 = s1\<lparr>topics := AList.delete (JSON_stringify_topic tp) (topics s1)\<rparr>;
          s3 = clear_pending cid s2
      in if isConnected s3 then send (Unsubscribe [tp]) s3 else s3)"
| "run_teardown (TeardownOrderBook cid tp) s =
     (let s1 = s\<lparr>messageHandlers := AList.delete ''books'' (messageHandlers s)\<rparr>;
          s2 = s1\<lparr>topics := AList.delete ''orderBook'' (topics s1)\<rparr>;
          s3 = s2\<lparr>frames := (frames s2)(cid := (frames s2 cid)\<lparr>orderBook := \<lparr>bids = [], asks = []\<rparr>\<rparr>)\<rparr>;
          s4 = clear_pending cid s3
      in if isConnected s4 then send (Unsubscribe [tp]) s4 else s4)"

text \<open>
  A pending timer fires: it leaves \<open>timers\<close> and its callback runs. What a retried call
  returns, its teardown, goes to \<open>setTimeout\<close>'s caller and is dropped.
\<close>

definition fire_timer :: "(string \<Rightarrow> string) \<Rightarrow> nat \<Rightarrow> session \<Rightarrow> session" where
  "fire_timer INTERVAL tid s =
     (case map_of (timers s) tid of
        None \<Rightarrow> s
      | Some act \<Rightarrow>
          (let s' = s\<lparr>timers := AList.delete tid (timers s)\<rparr> in
           case act of
             RetryListenOHLCV opts cb \<Rightarrow> snd (listenOHLCV INTERVAL opts cb s')
           | RetryListenOrderBook sy cb \<Rightarrow> snd (listenOrderBook sy cb s')
           | WaitConnectedOHLCV cid tp cb \<Rightarrow> waitForConnectedAndSubscribe_ohlcv cid tp cb s'
           | WaitConnectedOrderBook cid mkt cb tp \<Rightarrow> waitForConnectedAndSubscribe_books cid mkt cb tp s'))"


section \<open>REST client: createAPI and its request interceptor\<close>

definition RECV_WINDOW :: nat where
  "RECV_WINDOW = 5000"



definition ENDPOINTS_MARKETS :: string where
  "ENDPOINTS_MARKETS = ''/futures/usdt/contracts''"

definition ENDPOINTS_TICKERS :: string where
  "ENDPOINTS_TICKERS = ''/futures/usdt/tickers''"

definition ENDPOINTS_KLINE :: string where
  "ENDPOINTS_KLINE = ''/futures/usdt/candlesticks''"

definition ENDPOINTS_ORDERS :: string where
  "ENDPOINTS_ORDERS = ''/futures/usdt/orders''"

definition PUBLIC_ENDPOINTS :: "string list" where
  "PUBLIC_ENDPOINTS = [ENDPOINTS_MARKETS, ENDPOINTS_TICKERS, ENDPOINTS_KLINE]"

text \<open>A request body, and which bodies count as true in \<open>config.data ? ... : ''\<close>.\<close>

datatype json =
    JNull
  | JBool bool
  | JNumber real
  | JString string
  | JArray "json list"
  | JObject "(string \<times> json) list"

fun truthy :: "json \<Rightarrow> bool" where
  "truthy JNull = False"
| "truthy (JBool b) = b"
| "truthy (JNumber n) = (n \<noteq> 0)"
| "truthy (JString s) = (s \<noteq> [])"
| "truthy (JArray xs) = True"
| "truthy (JObject kvs) = True"

datatype header_value = HString string | HNumber nat | HUndefined

text \<open>
  The request configuration. \<open>params\<close> is a flat object of strings, in the order of its
  keys; an object is always true in \<open>config.params ? ... : ''\<close>.
\<close>

record config =
  url :: "string option"
  http_method :: "string option"
  params :: "(string \<times> string) list option"
  data :: "json option"
  headers :: "(string \<times> header_value) list"
  timeout :: "nat option"

text \<open>\<open>recvWindow\<close> is \<open>options.extra?.recvWindow\<close>; a credential that is \<open>None\<close> is \<open>undefined\<close>.\<close>

record ExchangeOptions =
  key :: "string option"
  secret :: "string option"
  testnet :: bool
  corsAnywhere :: "string option"
  recvWindow :: "nat option"

text \<open>
  The library functions the interceptor calls are parameters: \<open>createHash('sha512')\<close> and
  \<open>createHmac('sha512', secret)\<close> with \<open>digest('hex')\<close>, \<open>qs.stringify\<close>,
  \<open>decodeURIComponent\<close> and \<open>JSON.stringify\<close>.
\<close>

record externals =
  sha512_hex :: "string \<Rightarrow> string"
  hmac_sha512_hex :: "string \<Rightarrow> string \<Rightarrow> string"
  qs_stringify :: "(string \<times> string) list \<Rightarrow> string"
  decodeURIComponent :: "string \<Rightarrow> string"
  JSON_stringify :: "json \<Rightarrow> string"

text \<open>
  \<open>TypeError\<close> is what \<open>createHmac\<close> throws for a key that is \<open>undefined\<close>;
  \<open>ConfigurationError\<close> is the error of the spec's taxonomy, which no path of the source raises.
\<close>

datatype error = ConfigurationError | TypeError


text \<open>\<open>String.prototype.toUpperCase\<close> on ASCII letters.\<close>

definition toUpperCase :: "string \<Rightarrow> string" where
  "toUpperCase s =
     map (\<lambda>c. case map_of (zip ''abcdefghijklmnopqrstuvwxyz'' ''ABCDEFGHIJKLMNOPQRSTUVWXYZ'') c of
                 None \<Rightarrow> c | Some u \<Rightarrow> u) s"

text \<open>The decimal numeral of the timestamp, as \<open>join\<close> renders a number.\<close>

fun string_of_nat :: "nat \<Rightarrow> string" where
  "string_of_nat n =
     (if n < 10 then [''0123456789'' ! n]
      else string_of_nat (n div 10) @ [''0123456789'' ! (n mod 10)])"

declare string_of_nat.simps [simp del]

fun join :: "string \<Rightarrow> string list \<Rightarrow> string" where
  "join sep [] = []"
| "join sep [x] = x"
| "join sep (x # y # ys) = x @ sep @ join sep (y # ys)"

definition newline :: string where
  "newline = [CHR 0x0A]"

text \<open>\<open>PUBLIC_ENDPOINTS.some((str) => config?.url?.startsWith(str))\<close>\<close>

definition is_public :: "config \<Rightarrow> bool" where
  "is_public cfg =
     list_ex (\<lambda>str. case url cfg of None \<Rightarrow> False | Some u \<Rightarrow> prefix str u) PUBLIC_ENDPOINTS"

text \<open>The constant \<open>params\<close> of the interceptor, with the two library functions it applies.\<close>

definition signed_params :: "((string \<times> string) list \<Rightarrow> string) \<Rightarrow> (string \<Rightarrow> string) \<Rightarrow> config \<Rightarrow> string" where
  "signed_params stringify decode cfg =
     (case params cfg of None \<Rightarrow> [] | Some ps \<Rightarrow> decode (stringify ps))"

definition toSign :: "externals \<Rightarrow> config \<Rightarrow> nat \<Rightarrow> string" where
  "toSign ext cfg timestamp =
     (let url' = ''/api/v4'' @ (case url cfg of None \<Rightarrow> [] | Some u \<Rightarrow> u);
          method' = (case http_method cfg of
                       None \<Rightarrow> ''GET''
                     | Some m \<Rightarrow> if toUpperCase m = [] then ''GET'' else toUpperCase m);
          params' = signed_params (qs_stringify ext) (decodeURIComponent ext) cfg;
          data' = sha512_hex ext
                    (case data cfg of
                       None \<Rightarrow> []
                     | Some d \<Rightarrow> if truthy d then JSON_stringify ext d else [])
      in join newline [method', url', params', data', string_of_nat timestamp])"

text \<open>
  The function given to \<open>xhr.interceptors.request.use\<close>; \<open>now\<close> is
  \<open>virtualClock.getCurrentTime().unix()\<close>.
\<close>

definition interceptor :: "externals \<Rightarrow> ExchangeOptions \<Rightarrow> nat \<Rightarrow> config \<Rightarrow> error + config" where
  "interceptor ext options now cfg =
     (if is_public cfg then Inr cfg
      else
        (case secret options of
           None \<Rightarrow> Inl TypeError
         | Some sec \<Rightarrow>
             (let signature = hmac_sha512_hex ext sec (toSign ext cfg now);
                  hs = AList.update ''Timestamp'' (HNumber now)
                         (AList.update ''SIGN'' (HString signature)
                           (AList.update ''KEY''
                              (case key options of None \<Rightarrow> HUndefined | Some k \<Rightarrow> HString k)
                              (headers cfg)))
              in Inr (cfg\<lparr>headers := hs,
                          timeout := Some (case recvWindow options of
                                             None \<Rightarrow> RECV_WINDOW | Some w \<Rightarrow> w)\<rparr>))))"



section \<open>Vocabulary of the statements\<close>

text \<open>A raw pair as a level: the price kept, the amount times the precision factor.\<close>

definition normalise :: "market \<Rightarrow> real \<times> real \<Rightarrow> OrderBookOrders" where
  "normalise mkt pa = \<lparr>price = fst pa, amount = snd pa * precision_amount mkt, total = None\<rparr>"

text \<open>What identifies a level apart from its running total.\<close>

definition level_key :: "OrderBookOrders \<Rightarrow> real \<times> real" where
  "level_key l = (price l, amount l)"

definition demo_market :: market where
  "demo_market = \<lparr>market_id = ''BTC-USDT'', symbol = ''BTC/USDT:USDT'', precision_amount = 1\<rparr>"

definition demo_ticker :: ticker where
  "demo_ticker = \<lparr>ticker_symbol = ''BTC/USDT:USDT'', ticker_last = Some 100\<rparr>"

text \<open>The ticker of another market, first in a store that holds both.\<close>

definition eth_ticker :: ticker where
  "eth_ticker = \<lparr>ticker_symbol = ''ETH/USDT:USDT'', ticker_last = Some 50\<rparr>"

definition empty_book :: OrderBook where
  "empty_book = \<lparr>bids = [], asks = []\<rparr>"

text \<open>The snapshot of the spec's scenario.\<close>

definition demo_snapshot :: books_message where
  "demo_snapshot = \<lparr>action = ''snapshot'', data_bids = [(100, 2), (99, 1)], data_asks = [(101, 3)]\<rparr>"

text \<open>A snapshot with one crossed level on each side: a bid at 101 and an ask at 99.\<close>

definition crossed_snapshot :: books_message where
  "crossed_snapshot =
     \<lparr>action = ''snapshot'', data_bids = [(101, 1), (100, 2)], data_asks = [(99, 1), (101, 3)]\<rparr>"

text \<open>An update that zeroes both bid levels of the scenario's book.\<close>

definition two_deletions :: books_message where
  "two_deletions = \<lparr>action = ''update'', data_bids = [(100, 0), (99, 0)], data_asks = []\<rparr>"

text \<open>A session right after construction, before the markets are loaded.\<close>

definition fresh_session :: session where
  "fresh_session =
     \<lparr>store_loaded_markets = False, store_markets = [], store_tickers = [],
      isConnected = False, isDisposed = False,
      topics = [],
      messageHandlers = [(''tickers'', HandleTickerEvents), (''funding-rate'', HandleFundingRateEvents)],
      timers = [], next_timer = 1,
      frames = (\<lambda>_. \<lparr>timeoutId = None, orderBook = \<lparr>bids = [], asks = []\<rparr>\<rparr>), next_frame = 0,
      sent = []\<rparr>"

definition eth_market :: market where
  "eth_market = \<lparr>market_id = ''ETH-USDT'', symbol = ''ETH/USDT:USDT'', precision_amount = 0.1\<rparr>"

text \<open>The markets are loaded and the socket opens.\<close>

definition markets_loaded_and_open :: "session \<Rightarrow> session" where
  "markets_loaded_and_open s =
     s\<lparr>store_loaded_markets := True, store_markets := [demo_market, eth_market], isConnected := True\<rparr>"

definition open_session :: session where
  "open_session = markets_loaded_and_open fresh_session"







text \<open>
  A subscription requested before the markets are loaded: the request, the first retry
  (the markets are still not loaded), the caller's teardown, and the second retry once the
  markets are loaded and the socket is open.
\<close>

definition poll_teardown :: teardown where
  "poll_teardown = fst (listenOrderBook ''BTC/USDT:USDT'' 7 fresh_session)"

definition poll_requested :: session where
  "poll_requested = snd (listenOrderBook ''BTC/USDT:USDT'' 7 fresh_session)"

definition poll_retried :: session where
  "poll_retried = fire_timer (\<lambda>i. i) 1 poll_requested"

definition poll_cancelled :: session where
  "poll_cancelled = run_teardown poll_teardown poll_retried"

definition poll_resumed :: session where
  "poll_resumed = fire_timer (\<lambda>i. i) 2 (markets_loaded_and_open poll_cancelled)"

text \<open>
  Order books requested while the session is not ready. First: the markets are loaded but
  the socket is not open when the book of BTC is requested; the socket opens, the book of
  ETH is requested, and then the first call's poll fires. Second: the request made before
  the markets are loaded, whose retry fires once they are loaded and the socket is open.
\<close>

definition loaded_session :: session where
  "loaded_session =
     fresh_session\<lparr>store_loaded_markets := True, store_markets := [demo_market, eth_market]\<rparr>"

definition early_call :: session where
  "early_call = snd (listenOrderBook ''BTC/USDT:USDT'' 7 loaded_session)"

definition second_call :: session where
  "second_call = snd (listenOrderBook ''ETH/USDT:USDT'' 8 (early_call\<lparr>isConnected := True\<rparr>))"

definition early_call_polled :: session where
  "early_call_polled = fire_timer (\<lambda>i. i) 1 second_call"

definition late_registered :: session where
  "late_registered = fire_timer (\<lambda>i. i) 1 (markets_loaded_and_open poll_requested)"

text \<open>
  Stand-ins for the library functions, which tag their argument; the serialiser writes
  the pairs \<open>key=value\<close> in the order of the keys, joined by \<open>&\<close>.
\<close>

definition tagging_externals :: externals where
  "tagging_externals =
     \<lparr>sha512_hex = (\<lambda>s. ''sha512('' @ s @ '')''),
      hmac_sha512_hex = (\<lambda>k s. ''hmac('' @ k @ '','' @ s @ '')''),
      qs_stringify = (\<lambda>ps. join ''&'' (map (\<lambda>kv. fst kv @ ''='' @ snd kv) ps)),
      decodeURIComponent = (\<lambda>s. s),
      JSON_stringify = (\<lambda>j. ''json'')\<rparr>"

definition orders_request :: config where
  "orders_request =
     \<lparr>url = Some ''/futures/usdt/orders'', http_method = Some ''get'',
      params = Some [(''status'', ''open''), (''contract'', ''BTC_USDT'')],
      data = None, headers = [(''Accept'', HString ''application/json'')], timeout = None\<rparr>"


definition demo_options :: ExchangeOptions where
  "demo_options =
     \<lparr>key = Some ''my-key'', secret = Some ''my-secret'', testnet = False,
      corsAnywhere = None, recvWindow = None\<rparr>"

definition no_credentials :: ExchangeOptions where
  "no_credentials =
     \<lparr>key = None, secret = None, testnet = False, corsAnywhere = None, recvWindow = None\<rparr>"

definition tickers_request :: config where
  "tickers_request =
     \<lparr>url = Some ''/futures/usdt/tickers'', http_method = Some ''get'', params = None,
      data = None, headers = [], timeout = None\<rparr>"

text \<open>
  \<open>qs.stringify\<close> as it is called here, without a \<open>sort\<close> option, on keys and values of
  unreserved characters: the pairs \<open>key=value\<close> in the order of the object's keys, joined
  by \<open>&\<close>. \<open>decodeURIComponent\<close> leaves such a string as it is.
\<close>

definition stringify_in_key_order :: "(string \<times> string) list \<Rightarrow> string" where
  "stringify_in_key_order ps = join ''&'' (map (\<lambda>kv. fst kv @ ''='' @ snd kv) ps)"

text \<open>What a request goes out with, if the interceptor returns.\<close>

definition response_timeout :: "error + config \<Rightarrow> nat option" where
  "response_timeout r = (case r of Inl e \<Rightarrow> None | Inr c \<Rightarrow> timeout c)"

definition response_header :: "error + config \<Rightarrow> string \<Rightarrow> header_value option" where
  "response_header r h = (case r of Inl e \<Rightarrow> None | Inr c \<Rightarrow> map_of (headers c) h)"

lemmas handler_defs = books_handler_def merge_message_def apply_update_def apply_snapshot_def
  snapshot_side_def snapshot_step_def lastPrice_def filter_stale_def sortOrderBook_def
  calcOrderBookTotal_def multiply_def splice1_def

lemmas demo_defs = demo_market_def demo_ticker_def empty_book_def demo_snapshot_def
  crossed_snapshot_def two_deletions_def

lemmas session_defs = setTimeout_def clearTimeout_def new_frame_def set_timeoutId_def
  clear_pending_def send_def waitForConnectedAndSubscribe_ohlcv_def listenOHLCV_def
  waitForConnectedAndSubscribe_books_def listenOrderBook_def fire_timer_def
  fresh_session_def markets_loaded_and_open_def open_session_def Let_def

lemmas poll_defs = poll_teardown_def poll_requested_def poll_retried_def poll_cancelled_def
  poll_resumed_def

lemmas rest_defs = is_public_def PUBLIC_ENDPOINTS_def ENDPOINTS_MARKETS_def ENDPOINTS_TICKERS_def
  ENDPOINTS_KLINE_def interceptor_def toSign_def signed_params_def toUpperCase_def newline_def
  RECV_WINDOW_def Let_def

lemmas rest_demo_defs = tagging_externals_def orders_request_def demo_options_def
  no_credentials_def tickers_request_def

section \<open>Properties of the order book handler\<close>

subsection \<open>Snapshot\<close>

lemma foldl_snapshot_step:
  "foldl (snapshot_step mkt) acc raw = acc @ map (normalise mkt) (filter (\<lambda>pa. snd pa \<noteq> 0) raw)"
  by (induction raw arbitrary: acc) (auto simp: snapshot_step_def normalise_def multiply_def)

lemma snapshot_side_map_filter:
  "snapshot_side mkt raw = map (normalise mkt) (filter (\<lambda>pa. snd pa \<noteq> 0) raw)"
  by (simp add: snapshot_side_def foldl_snapshot_step)

text \<open>
  C4. A snapshot message replaces both sides, whatever the book held: each side becomes
  the raw entries with a nonzero amount, in order, each amount multiplied by the market's
  amount precision. In the scenario of the spec (precision 1, a last price between 100
  and 101 so that the filter keeps every level) the delivered book is
  bids (100, 2, 2), (99, 1, 3) and asks (101, 3, 3).
\<close>

theorem snapshot_replaces_book:
  "(action msg = ''snapshot'' \<longrightarrow>
      merge_message mkt msg ob =
        \<lparr>bids = map (normalise mkt) (filter (\<lambda>pa. snd pa \<noteq> 0) (data_bids msg)),
         asks = map (normalise mkt) (filter (\<lambda>pa. snd pa \<noteq> 0) (data_asks msg))\<rparr>)
   \<and> (precision_amount mkt = 1 \<and> 100 \<le> lp \<and> lp \<le> 101 \<longrightarrow>
      books_handler [\<lparr>ticker_symbol = symbol mkt, ticker_last = Some lp\<rparr>] mkt demo_snapshot ob =
        \<lparr>bids = [\<lparr>price = 100, amount = 2, total = Some 2\<rparr>,
                 \<lparr>price = 99, amount = 1, total = Some 3\<rparr>],
         asks = [\<lparr>price = 101, amount = 3, total = Some 3\<rparr>]\<rparr>)"
proof (intro conjI impI)
  assume "action msg = ''snapshot''"
  then show "merge_message mkt msg ob =
        \<lparr>bids = map (normalise mkt) (filter (\<lambda>pa. snd pa \<noteq> 0) (data_bids msg)),
         asks = map (normalise mkt) (filter (\<lambda>pa. snd pa \<noteq> 0) (data_asks msg))\<rparr>"
    by (simp add: merge_message_def apply_update_def apply_snapshot_def snapshot_side_map_filter)
next
  assume "precision_amount mkt = 1 \<and> 100 \<le> lp \<and> lp \<le> 101"
  then show "books_handler [\<lparr>ticker_symbol = symbol mkt, ticker_last = Some lp\<rparr>] mkt demo_snapshot ob =
        \<lparr>bids = [\<lparr>price = 100, amount = 2, total = Some 2\<rparr>,
                 \<lparr>price = 99, amount = 1, total = Some 3\<rparr>],
         asks = [\<lparr>price = 101, amount = 3, total = Some 3\<rparr>]\<rparr>"
    by (simp add: handler_defs demo_snapshot_def)
qed

theorem snapshot_replaces_book_witness:
  "action demo_snapshot = ''snapshot''
   \<and> merge_message demo_market demo_snapshot
        \<lparr>bids = [\<lparr>price = 5, amount = 5, total = Some 5\<rparr>], asks = []\<rparr> =
      \<lparr>bids = [\<lparr>price = 100, amount = 2, total = None\<rparr>, \<lparr>price = 99, amount = 1, total = None\<rparr>],
       asks = [\<lparr>price = 101, amount = 3, total = None\<rparr>]\<rparr>
   \<and> precision_amount demo_market = 1 \<and> (100::real) \<le> 100 \<and> (100::real) \<le> 101
   \<and> books_handler [demo_ticker] demo_market demo_snapshot
        \<lparr>bids = [\<lparr>price = 5, amount = 5, total = Some 5\<rparr>], asks = []\<rparr> =
      \<lparr>bids = [\<lparr>price = 100, amount = 2, total = Some 2\<rparr>, \<lparr>price = 99, amount = 1, total = Some 3\<rparr>],
       asks = [\<lparr>price = 101, amount = 3, total = Some 3\<rparr>]\<rparr>"
  using snapshot_replaces_book [of demo_snapshot demo_market
      "\<lparr>bids = [\<lparr>price = 5, amount = 5, total = Some 5\<rparr>], asks = []\<rparr>" 100]
  by (simp add: demo_defs normalise_def)

subsection \<open>The filter on the last price\<close>

lemma running_total_keys: "map level_key (running_total acc ls) = map level_key ls"
  by (induction ls arbitrary: acc) (auto simp: level_key_def)

lemma running_total_prices: "map price (running_total acc ls) = map price ls"
  by (induction ls arbitrary: acc) auto

lemma handler_asks_keys:
  "mset (map level_key (asks (books_handler tickers mkt msg ob))) =
   mset (map level_key (filter (\<lambda>a. lastPrice tickers mkt \<le> price a) (asks (merge_message mkt msg ob))))"
proof -
  have "map level_key (asks (books_handler tickers mkt msg ob)) =
        map level_key (sort_key price
          (filter (\<lambda>a. lastPrice tickers mkt \<le> price a) (asks (merge_message mkt msg ob))))"
    by (simp add: books_handler_def calcOrderBookTotal_def sortOrderBook_def filter_stale_def
        running_total_keys)
  then show ?thesis
    by (metis mset_map mset_sort)
qed

lemma handler_bids_keys:
  "mset (map level_key (bids (books_handler tickers mkt msg ob))) =
   mset (map level_key (filter (\<lambda>b. price b \<le> lastPrice tickers mkt) (bids (merge_message mkt msg ob))))"
proof -
  have "map level_key (bids (books_handler tickers mkt msg ob)) =
        map level_key (sort_key (\<lambda>b. - price b)
          (filter (\<lambda>b. price b \<le> lastPrice tickers mkt) (bids (merge_message mkt msg ob))))"
    by (simp add: books_handler_def calcOrderBookTotal_def sortOrderBook_def filter_stale_def
        running_total_keys)
  then show ?thesis
    by (metis mset_map mset_sort)
qed

lemma handler_asks_prices:
  "set (map price (asks (books_handler tickers mkt msg ob))) \<subseteq> {p. lastPrice tickers mkt \<le> p}"
  by (auto simp: books_handler_def calcOrderBookTotal_def sortOrderBook_def filter_stale_def
      running_total_prices)

lemma handler_bids_prices:
  "set (map price (bids (books_handler tickers mkt msg ob))) \<subseteq> {p. p \<le> lastPrice tickers mkt}"
  by (auto simp: books_handler_def calcOrderBookTotal_def sortOrderBook_def filter_stale_def
      running_total_prices)

text \<open>
  C3. Let \<open>lp\<close> be the last price of the ticker the store holds for the market's symbol,
  and 0 when the store holds no ticker for that symbol or the ticker has no last price.
  Whatever the message (snapshot, update or any other action), the book handed to the
  callback holds, on the ask side, exactly the merged ask levels priced at or above \<open>lp\<close>
  and, on the bid side, exactly the merged bid levels priced at or below \<open>lp\<close> (as
  multisets of price and amount). Hence every delivered ask is at or above \<open>lp\<close> and
  every delivered bid at or below it.
\<close>

theorem stale_quotes_filtered:
  assumes "lp = (case find (\<lambda>t. ticker_symbol t = symbol mkt) tickers of
                   None \<Rightarrow> 0
                 | Some t \<Rightarrow> (case ticker_last t of None \<Rightarrow> 0 | Some l \<Rightarrow> l))"
  shows "mset (map level_key (asks (books_handler tickers mkt msg ob))) =
     mset (map level_key (filter (\<lambda>a. lp \<le> price a) (asks (merge_message mkt msg ob))))
   \<and> mset (map level_key (bids (books_handler tickers mkt msg ob))) =
     mset (map level_key (filter (\<lambda>b. price b \<le> lp) (bids (merge_message mkt msg ob))))
   \<and> (\<forall>a \<in> set (asks (books_handler tickers mkt msg ob)). lp \<le> price a)
   \<and> (\<forall>b \<in> set (bids (books_handler tickers mkt msg ob)). price b \<le> lp)"
proof -
  have bound: "lastPrice tickers mkt = lp"
    by (simp add: assms lastPrice_def split: option.splits)
  show ?thesis
    using handler_asks_keys [of tickers mkt msg ob] handler_bids_keys [of tickers mkt msg ob]
      handler_asks_prices [of tickers mkt msg ob] handler_bids_prices [of tickers mkt msg ob]
    unfolding bound by auto
qed

theorem stale_quotes_filtered_witness:
  "find (\<lambda>t. ticker_symbol t = symbol demo_market) [eth_ticker, demo_ticker] = Some demo_ticker
   \<and> ticker_last demo_ticker = Some 100
   \<and> asks (merge_message demo_market crossed_snapshot empty_book) =
       [\<lparr>price = 99, amount = 1, total = None\<rparr>, \<lparr>price = 101, amount = 3, total = None\<rparr>]
   \<and> bids (merge_message demo_market crossed_snapshot empty_book) =
       [\<lparr>price = 101, amount = 1, total = None\<rparr>, \<lparr>price = 100, amount = 2, total = None\<rparr>]
   \<and> asks (books_handler [eth_ticker, demo_ticker] demo_market crossed_snapshot empty_book) =
       [\<lparr>price = 101, amount = 3, total = Some 3\<rparr>]
   \<and> bids (books_handler [eth_ticker, demo_ticker] demo_market crossed_snapshot empty_book) =
       [\<lparr>price = 100, amount = 2, total = Some 2\<rparr>]
   \<and> list_all (\<lambda>a. 100 \<le> price a)
        (asks (books_handler [eth_ticker, demo_ticker] demo_market crossed_snapshot empty_book))
   \<and> list_all (\<lambda>b. price b \<le> 100)
        (bids (books_handler [eth_ticker, demo_ticker] demo_market crossed_snapshot empty_book))"
  using stale_quotes_filtered [of 100 demo_market "[eth_ticker, demo_ticker]" crossed_snapshot empty_book]
  by (simp add: handler_defs demo_defs eth_ticker_def)

text \<open>
  With no last price the bound is 0: the ask filter keeps every level priced at or above
  0, the bid filter keeps only the levels priced at or below 0.
\<close>

lemma lastPrice_unknown:
  "find (\<lambda>t. ticker_symbol t = symbol mkt) tickers = None \<Longrightarrow> lastPrice tickers mkt = 0"
  by (simp add: lastPrice_def)

lemma filter_stale_zero:
  "filter_stale 0 ob =
     \<lparr>bids = filter (\<lambda>b. price b \<le> 0) (bids ob), asks = filter (\<lambda>a. 0 \<le> price a) (asks ob)\<rparr>"
  by (simp add: filter_stale_def)

text \<open>
  C5. The claim has the filter do nothing while no last price is known. On the scenario's
  snapshot with an empty ticker store the handler delivers the ask side whole and an empty
  bid side: both bids, at 100 and 99, are above the bound 0 and are dropped.
\<close>

theorem unknown_last_price_drops_bids:
  "lastPrice [] demo_market = 0
   \<and> merge_message demo_market demo_snapshot empty_book =
       \<lparr>bids = [\<lparr>price = 100, amount = 2, total = None\<rparr>, \<lparr>price = 99, amount = 1, total = None\<rparr>],
        asks = [\<lparr>price = 101, amount = 3, total = None\<rparr>]\<rparr>
   \<and> books_handler [] demo_market demo_snapshot empty_book =
       \<lparr>bids = [], asks = [\<lparr>price = 101, amount = 3, total = Some 3\<rparr>]\<rparr>"
  by (simp add: handler_defs demo_defs)

subsection \<open>Update\<close>

text \<open>
  The two branches that end in \<open>return\<close> give the side back without looking at the
  pairs that follow; the other two go on with them.
\<close>

lemma update_side_delete:
  "findIndex (\<lambda>b. price b = p) lv = Some i \<Longrightarrow>
   update_side mkt lv ((p, 0) # rest) = splice1 lv i"
  by simp

lemma update_side_insert:
  "findIndex (\<lambda>b. price b = p) lv = None \<Longrightarrow> a \<noteq> 0 \<Longrightarrow>
   update_side mkt lv ((p, a) # rest) =
     lv @ [\<lparr>price = p, amount = a * precision_amount mkt, total = Some 0\<rparr>]"
  by (simp add: multiply_def)

lemma update_side_replace:
  "findIndex (\<lambda>b. price b = p) lv = Some i \<Longrightarrow> a \<noteq> 0 \<Longrightarrow>
   update_side mkt lv ((p, a) # rest) =
     update_side mkt (lv[i := (lv ! i)\<lparr>amount := a * precision_amount mkt\<rparr>]) rest"
  by (simp add: multiply_def)

lemma update_side_absent_zero:
  "findIndex (\<lambda>b. price b = p) lv = None \<Longrightarrow>
   update_side mkt lv ((p, 0) # rest) = update_side mkt lv rest"
  by simp

text \<open>
  C1. The claim has every pair of an update processed. After the scenario's snapshot (last
  price 100), an update whose bid list zeroes the level at 100 and then the level at 99
  removes the level at 100 only: the deletion returns from the loop, the pair for 99 is
  not visited, and the delivered book still holds the bid at 99.
\<close>

theorem update_stops_after_deletion:
  "books_handler [demo_ticker] demo_market demo_snapshot empty_book =
     \<lparr>bids = [\<lparr>price = 100, amount = 2, total = Some 2\<rparr>, \<lparr>price = 99, amount = 1, total = Some 3\<rparr>],
      asks = [\<lparr>price = 101, amount = 3, total = Some 3\<rparr>]\<rparr>
   \<and> books_handler [demo_ticker] demo_market two_deletions
       (books_handler [demo_ticker] demo_market demo_snapshot empty_book) =
     \<lparr>bids = [\<lparr>price = 99, amount = 1, total = Some 1\<rparr>],
      asks = [\<lparr>price = 101, amount = 3, total = Some 3\<rparr>]\<rparr>"
  by (simp add: handler_defs demo_defs)

section \<open>Properties of the streaming session\<close>

subsection \<open>Subscribing before the markets are loaded\<close>

text \<open>
  A teardown run before the first retry fires removes the pending timer and leaves
  handlers and ledger as they were; running it again changes nothing.
\<close>

lemma delete_fresh_timer:
  "tid \<notin> fst ` set ts \<Longrightarrow> AList.delete tid (ts @ [(tid, act)]) = ts"
  by (induction ts) (auto simp: AList.delete_eq)

lemma retry_cancelled_before_first_fire:
  assumes "\<not> store_loaded_markets s" and "listenOrderBook sy cb s = (td, s')"
    and "next_timer s \<notin> fst ` set (timers s)"
  shows "td = ClearRetry (next_frame s) \<and> timers s' = timers s @ [(next_timer s, RetryListenOrderBook sy cb)]
     \<and> timers (run_teardown td s') = timers s
     \<and> messageHandlers (run_teardown td s') = messageHandlers s
     \<and> topics (run_teardown td s') = topics s
     \<and> run_teardown td (run_teardown td s') = run_teardown td s'"
  using assms
  by (auto simp: listenOrderBook_def new_frame_def setTimeout_def set_timeoutId_def clear_pending_def
      clearTimeout_def delete_fresh_timer)

text \<open>
  C6. The claim has the teardown cancel the pending retry at any point of the polling. The
  retry calls listenOrderBook anew, with a timer variable of its own, and the teardown
  that call returns is dropped; the teardown the caller holds clears only the first timer.
  In the trace below the first retry has fired before the caller runs the teardown: the
  second retry's timer stays pending, and when it fires with the markets loaded and the
  socket open, the handler and the ledger entry are created and the subscribe frame is sent.
\<close>

theorem retry_survives_teardown:
  "poll_teardown = ClearRetry 0
   \<and> timers poll_requested = [(1, RetryListenOrderBook ''BTC/USDT:USDT'' 7)]
   \<and> timers poll_retried = [(2, RetryListenOrderBook ''BTC/USDT:USDT'' 7)]
   \<and> timers poll_cancelled = [(2, RetryListenOrderBook ''BTC/USDT:USDT'' 7)]
   \<and> map_of (messageHandlers poll_resumed) ''books'' = Some (BooksHandler 2 demo_market 7)
   \<and> map_of (topics poll_resumed) ''orderBook'' =
       Some [\<lparr>channel = ''books'', instId = ''BTC-USDT''\<rparr>]
   \<and> sent poll_resumed = [Subscribe [\<lparr>channel = ''books'', instId = ''BTC-USDT''\<rparr>]]"
  by (simp add: poll_defs session_defs demo_market_def)

subsection \<open>One order book per session\<close>

lemma listenOrderBook_subscribed:
  assumes "store_loaded_markets s" and "isConnected s" and "\<not> isDisposed s"
    and "find (\<lambda>m. symbol m = sy) (store_markets s) = Some mkt"
  shows "listenOrderBook sy cb s =
     (TeardownOrderBook (next_frame s) \<lparr>channel = ''books'', instId = market_id mkt\<rparr>,
      s\<lparr>frames := (frames s)(next_frame s := \<lparr>timeoutId = None, orderBook = \<lparr>bids = [], asks = []\<rparr>\<rparr>),
        next_frame := Suc (next_frame s),
        messageHandlers := AList.update ''books'' (BooksHandler (next_frame s) mkt cb) (messageHandlers s),
        sent := sent s @ [Subscribe [\<lparr>channel = ''books'', instId = market_id mkt\<rparr>]],
        topics := AList.update ''orderBook'' [\<lparr>channel = ''books'', instId = market_id mkt\<rparr>] (topics s)\<rparr>)"
  using assms
  by (simp add: listenOrderBook_def new_frame_def waitForConnectedAndSubscribe_books_def send_def Let_def)

lemma clear_pending_tables:
  "messageHandlers (clear_pending cid s) = messageHandlers s \<and> topics (clear_pending cid s) = topics s
   \<and> isConnected (clear_pending cid s) = isConnected s \<and> sent (clear_pending cid s) = sent s"
  by (simp add: clear_pending_def set_timeoutId_def clearTimeout_def split: option.splits)

lemma teardown_order_book_tables:
  "map_of (messageHandlers (run_teardown (TeardownOrderBook cid tp) u)) ''books'' = None
   \<and> map_of (topics (run_teardown (TeardownOrderBook cid tp) u)) ''orderBook'' = None"
  by (simp add: Let_def send_def clear_pending_tables AList.delete_conv')

text \<open>
  C10, as claimed, fails for calls made while the session is not ready. A call made
  before the socket opens registers when its poll fires: if a second call has registered
  in between, the poll overwrites the second call's handler and ledger entry with the
  first call's. And the function returned by a call made before the markets are loaded
  clears a timer only: run after the retry has registered, it leaves the handler under
  books and the ledger entry under orderBook in place.
\<close>

theorem order_book_slot_deferred_calls:
  "timers early_call =
     [(1, WaitConnectedOrderBook 0 demo_market 7 \<lparr>channel = ''books'', instId = ''BTC-USDT''\<rparr>)]
   \<and> map_of (messageHandlers early_call) ''books'' = None
   \<and> map_of (messageHandlers second_call) ''books'' = Some (BooksHandler 1 eth_market 8)
   \<and> map_of (topics second_call) ''orderBook'' = Some [\<lparr>channel = ''books'', instId = ''ETH-USDT''\<rparr>]
   \<and> map_of (messageHandlers early_call_polled) ''books'' = Some (BooksHandler 0 demo_market 7)
   \<and> map_of (topics early_call_polled) ''orderBook'' = Some [\<lparr>channel = ''books'', instId = ''BTC-USDT''\<rparr>]
   \<and> poll_teardown = ClearRetry 0
   \<and> map_of (messageHandlers late_registered) ''books'' = Some (BooksHandler 1 demo_market 7)
   \<and> map_of (messageHandlers (run_teardown poll_teardown late_registered)) ''books'' =
       Some (BooksHandler 1 demo_market 7)
   \<and> map_of (topics (run_teardown poll_teardown late_registered)) ''orderBook'' =
       Some [\<lparr>channel = ''books'', instId = ''BTC-USDT''\<rparr>]"
  by (simp add: loaded_session_def early_call_def second_call_def early_call_polled_def
      late_registered_def poll_defs session_defs demo_market_def eth_market_def)

text \<open>
  C10, amended. On a session whose markets are loaded, which is connected and not
  disposed, for symbols of known markets, listenOrderBook stores its handler under the key
  books and its ledger entry under the key orderBook, whatever the symbol. A second call,
  for any symbol, overwrites both and adds no key, and each of the two teardowns removes
  the handler under books and the ledger entry under orderBook.
\<close>

theorem order_book_single_slot:
  assumes "store_loaded_markets s" and "isConnected s" and "\<not> isDisposed s"
    and "find (\<lambda>m. symbol m = sy1) (store_markets s) = Some m1"
    and "find (\<lambda>m. symbol m = sy2) (store_markets s) = Some m2"
    and "listenOrderBook sy1 cb1 s = (td1, s1)"
    and "listenOrderBook sy2 cb2 s1 = (td2, s2)"
  shows "map_of (messageHandlers s1) ''books'' = Some (BooksHandler (next_frame s) m1 cb1)
     \<and> map_of (topics s1) ''orderBook'' = Some [\<lparr>channel = ''books'', instId = market_id m1\<rparr>]
     \<and> map_of (messageHandlers s2) ''books'' = Some (BooksHandler (next_frame s1) m2 cb2)
     \<and> map_of (topics s2) ''orderBook'' = Some [\<lparr>channel = ''books'', instId = market_id m2\<rparr>]
     \<and> map fst (messageHandlers s2) = map fst (messageHandlers s1)
     \<and> map fst (topics s2) = map fst (topics s1)
     \<and> map_of (messageHandlers (run_teardown td1 s2)) ''books'' = None
     \<and> map_of (topics (run_teardown td1 s2)) ''orderBook'' = None
     \<and> map_of (messageHandlers (run_teardown td2 s2)) ''books'' = None
     \<and> map_of (topics (run_teardown td2 s2)) ''orderBook'' = None"
proof -
  let ?t1 = "\<lparr>channel = ''books'', instId = market_id m1\<rparr>"
  let ?t2 = "\<lparr>channel = ''books'', instId = market_id m2\<rparr>"
  have first: "listenOrderBook sy1 cb1 s =
     (TeardownOrderBook (next_frame s) ?t1,
      s\<lparr>frames := (frames s)(next_frame s := \<lparr>timeoutId = None, orderBook = \<lparr>bids = [], asks = []\<rparr>\<rparr>),
        next_frame := Suc (next_frame s),
        messageHandlers := AList.update ''books'' (BooksHandler (next_frame s) m1 cb1) (messageHandlers s),
        sent := sent s @ [Subscribe [?t1]],
        topics := AList.update ''orderBook'' [?t1] (topics s)\<rparr>)"
    using assms(1-4) by (rule listenOrderBook_subscribed)
  with assms(6) have td1: "td1 = TeardownOrderBook (next_frame s) ?t1"
    and s1: "s1 = s\<lparr>frames := (frames s)(next_frame s := \<lparr>timeoutId = None, orderBook = \<lparr>bids = [], asks = []\<rparr>\<rparr>),
        next_frame := Suc (next_frame s),
        messageHandlers := AList.update ''books'' (BooksHandler (next_frame s) m1 cb1) (messageHandlers s),
        sent := sent s @ [Subscribe [?t1]],
        topics := AList.update ''orderBook'' [?t1] (topics s)\<rparr>"
    by simp_all
  have pre1: "store_loaded_markets s1" "isConnected s1" "\<not> isDisposed s1"
    "find (\<lambda>m. symbol m = sy2) (store_markets s1) = Some m2"
    using assms(1-3,5) by (simp_all add: s1)
  have second: "listenOrderBook sy2 cb2 s1 =
     (TeardownOrderBook (next_frame s1) ?t2,
      s1\<lparr>frames := (frames s1)(next_frame s1 := \<lparr>timeoutId = None, orderBook = \<lparr>bids = [], asks = []\<rparr>\<rparr>),
        next_frame := Suc (next_frame s1),
        messageHandlers := AList.update ''books'' (BooksHandler (next_frame s1) m2 cb2) (messageHandlers s1),
        sent := sent s1 @ [Subscribe [?t2]],
        topics := AList.update ''orderBook'' [?t2] (topics s1)\<rparr>)"
    using pre1 by (rule listenOrderBook_subscribed)
  with assms(7) have td2: "td2 = TeardownOrderBook (next_frame s1) ?t2"
    and s2: "s2 = s1\<lparr>frames := (frames s1)(next_frame s1 := \<lparr>timeoutId = None, orderBook = \<lparr>bids = [], asks = []\<rparr>\<rparr>),
        next_frame := Suc (next_frame s1),
        messageHandlers := AList.update ''books'' (BooksHandler (next_frame s1) m2 cb2) (messageHandlers s1),
        sent := sent s1 @ [Subscribe [?t2]],
        topics := AList.update ''orderBook'' [?t2] (topics s1)\<rparr>"
    by simp_all
  have h1: "map_of (messageHandlers s1) ''books'' = Some (BooksHandler (next_frame s) m1 cb1)"
    and l1: "map_of (topics s1) ''orderBook'' = Some [?t1]"
    by (simp_all add: s1 AList.update_conv')
  have h2: "map_of (messageHandlers s2) ''books'' = Some (BooksHandler (next_frame s1) m2 cb2)"
    and l2: "map_of (topics s2) ''orderBook'' = Some [?t2]"
    by (simp_all add: s2 AList.update_conv')
  have in1: "''books'' \<in> set (map fst (messageHandlers s1))"
    and in2: "''orderBook'' \<in> set (map fst (topics s1))"
    by (simp_all add: s1 AList.update_keys)
  have k1: "map fst (messageHandlers s2) = map fst (messageHandlers s1)"
    using in1 by (simp add: s2 AList.update_keys)
  have k2: "map fst (topics s2) = map fst (topics s1)"
    using in2 by (simp add: s2 AList.update_keys)
  show ?thesis
    unfolding td1 td2 using h1 l1 h2 l2 k1 k2 teardown_order_book_tables by blast
qed


theorem order_book_single_slot_witness:
  "store_loaded_markets open_session \<and> isConnected open_session \<and> \<not> isDisposed open_session
   \<and> find (\<lambda>m. symbol m = ''BTC/USDT:USDT'') (store_markets open_session) = Some demo_market
   \<and> find (\<lambda>m. symbol m = ''ETH/USDT:USDT'') (store_markets open_session) = Some eth_market
   \<and> fst (listenOrderBook ''BTC/USDT:USDT'' 7 open_session) =
       TeardownOrderBook 0 \<lparr>channel = ''books'', instId = ''BTC-USDT''\<rparr>
   \<and> fst (listenOrderBook ''ETH/USDT:USDT'' 8 (snd (listenOrderBook ''BTC/USDT:USDT'' 7 open_session))) =
       TeardownOrderBook 1 \<lparr>channel = ''books'', instId = ''ETH-USDT''\<rparr>
   \<and> map_of (messageHandlers (snd (listenOrderBook ''BTC/USDT:USDT'' 7 open_session))) ''books'' =
       Some (BooksHandler 0 demo_market 7)
   \<and> messageHandlers
        (snd (listenOrderBook ''ETH/USDT:USDT'' 8 (snd (listenOrderBook ''BTC/USDT:USDT'' 7 open_session)))) =
       [(''tickers'', HandleTickerEvents), (''funding-rate'', HandleFundingRateEvents),
        (''books'', BooksHandler 1 eth_market 8)]
   \<and> topics
        (snd (listenOrderBook ''ETH/USDT:USDT'' 8 (snd (listenOrderBook ''BTC/USDT:USDT'' 7 open_session)))) =
       [(''orderBook'', [\<lparr>channel = ''books'', instId = ''ETH-USDT''\<rparr>])]
   \<and> messageHandlers
        (run_teardown (fst (listenOrderBook ''BTC/USDT:USDT'' 7 open_session))
          (snd (listenOrderBook ''ETH/USDT:USDT'' 8 (snd (listenOrderBook ''BTC/USDT:USDT'' 7 open_session))))) =
       [(''tickers'', HandleTickerEvents), (''funding-rate'', HandleFundingRateEvents)]
   \<and> topics
        (run_teardown (fst (listenOrderBook ''BTC/USDT:USDT'' 7 open_session))
          (snd (listenOrderBook ''ETH/USDT:USDT'' 8 (snd (listenOrderBook ''BTC/USDT:USDT'' 7 open_session))))) =
       []"
  using order_book_single_slot [of open_session "''BTC/USDT:USDT''" demo_market
      "''ETH/USDT:USDT''" eth_market 7
      "fst (listenOrderBook ''BTC/USDT:USDT'' 7 open_session)"
      "snd (listenOrderBook ''BTC/USDT:USDT'' 7 open_session)" 8
      "fst (listenOrderBook ''ETH/USDT:USDT'' 8 (snd (listenOrderBook ''BTC/USDT:USDT'' 7 open_session)))"
      "snd (listenOrderBook ''ETH/USDT:USDT'' 8 (snd (listenOrderBook ''BTC/USDT:USDT'' 7 open_session)))"]
  by (simp add: session_defs demo_market_def eth_market_def)

subsection \<open>Candles\<close>









section \<open>Properties of the REST client\<close>

lemma string_of_nat_demo: "string_of_nat 1700000000 = ''1700000000''"
  by (simp add: string_of_nat.simps)

lemma is_public_endpoints:
  "is_public cfg =
     (case url cfg of
        None \<Rightarrow> False
      | Some u \<Rightarrow> prefix ''/futures/usdt/contracts'' u \<or> prefix ''/futures/usdt/tickers'' u
                  \<or> prefix ''/futures/usdt/candlesticks'' u)"
  by (simp add: is_public_def PUBLIC_ENDPOINTS_def ENDPOINTS_MARKETS_def ENDPOINTS_TICKERS_def
      ENDPOINTS_KLINE_def split: option.splits)

lemma tickers_request_public: "is_public tickers_request"
  by (simp add: is_public_endpoints tickers_request_def)

lemma orders_request_private: "\<not> is_public orders_request"
  by (simp add: is_public_endpoints orders_request_def)

lemma toSign_orders_request:
  "toSign tagging_externals orders_request 1700000000 =
     ''GET'' @ newline @ ''/api/v4/futures/usdt/orders'' @ newline
     @ ''status=open&contract=BTC_USDT'' @ newline @ ''sha512()'' @ newline @ ''1700000000''"
  by (simp add: toSign_def signed_params_def toUpperCase_def tagging_externals_def orders_request_def
      string_of_nat_demo Let_def)

lemma demo_secret: "secret demo_options = Some ''my-secret''"
  by (simp add: demo_options_def)

text \<open>
  C8. A request whose url starts with one of the three public endpoints (contracts,
  tickers, candlesticks) comes back from the interceptor unchanged: no header is added and
  no timeout is set. A request that is not public, signed with a secret that is present,
  gets the timeout \<open>recvWindow\<close> when the options give one and \<open>RECV_WINDOW\<close>, 5000,
  otherwise.
\<close>

theorem public_requests_bypass_signing:
  "(is_public cfg \<longrightarrow> interceptor ext options now cfg = Inr cfg)
   \<and> (\<not> is_public cfg \<and> secret options = Some sec \<longrightarrow>
        (\<exists>cfg'. interceptor ext options now cfg = Inr cfg'
           \<and> timeout cfg' = Some (case recvWindow options of Some w \<Rightarrow> w | None \<Rightarrow> RECV_WINDOW)))
   \<and> RECV_WINDOW = 5000
   \<and> is_public cfg =
       (case url cfg of
          None \<Rightarrow> False
        | Some u \<Rightarrow> prefix ''/futures/usdt/contracts'' u \<or> prefix ''/futures/usdt/tickers'' u
                    \<or> prefix ''/futures/usdt/candlesticks'' u)"
  using is_public_endpoints [of cfg]
  by (auto simp: interceptor_def Let_def RECV_WINDOW_def split: option.splits)

theorem public_requests_bypass_signing_witness:
  "is_public tickers_request
   \<and> interceptor tagging_externals demo_options 1700000000 tickers_request = Inr tickers_request
   \<and> \<not> is_public orders_request \<and> secret demo_options = Some ''my-secret''
   \<and> response_timeout (interceptor tagging_externals demo_options 1700000000 orders_request) = Some 5000
   \<and> response_timeout
        (interceptor tagging_externals (demo_options\<lparr>recvWindow := Some 250\<rparr>) 1700000000 orders_request) =
       Some 250"
proof -
  note pub = tickers_request_public and priv = orders_request_private
  have sec': "secret (demo_options\<lparr>recvWindow := Some 250\<rparr>) = Some ''my-secret''"
    by (simp add: demo_options_def)
  from public_requests_bypass_signing
    [of tickers_request tagging_externals demo_options 1700000000 "''my-secret''"] pub
  have a: "interceptor tagging_externals demo_options 1700000000 tickers_request = Inr tickers_request"
    by blast
  from public_requests_bypass_signing
    [of orders_request tagging_externals demo_options 1700000000 "''my-secret''"] priv demo_secret
  obtain c where c: "interceptor tagging_externals demo_options 1700000000 orders_request = Inr c"
    "timeout c = Some (case recvWindow demo_options of Some w \<Rightarrow> w | None \<Rightarrow> RECV_WINDOW)"
    by blast
  have b: "response_timeout (interceptor tagging_externals demo_options 1700000000 orders_request) = Some 5000"
    using c(2) by (simp add: c(1) response_timeout_def) (simp add: demo_options_def RECV_WINDOW_def)
  from public_requests_bypass_signing
    [of orders_request tagging_externals "demo_options\<lparr>recvWindow := Some 250\<rparr>" 1700000000 "''my-secret''"]
    priv sec'
  obtain d where d: "interceptor tagging_externals (demo_options\<lparr>recvWindow := Some 250\<rparr>) 1700000000
        orders_request = Inr d"
    "timeout d = Some (case recvWindow (demo_options\<lparr>recvWindow := Some 250\<rparr>) of
                         Some w \<Rightarrow> w | None \<Rightarrow> RECV_WINDOW)"
    by blast
  have e: "response_timeout
        (interceptor tagging_externals (demo_options\<lparr>recvWindow := Some 250\<rparr>) 1700000000 orders_request) =
       Some 250"
    using d(2) by (simp add: d(1) response_timeout_def)
  from pub a priv demo_secret b e show ?thesis by blast
qed

text \<open>
  C2, as claimed, fails on the word sorted: the interceptor passes the params to the
  serialiser and decodes the result, and sorts nothing. For the params status, contract (in
  this order) the signed query string is \<open>status=open&contract=BTC_USDT\<close>, not the
  string of the keys in sorted order.
\<close>

theorem query_string_not_sorted:
  "signed_params stringify_in_key_order (\<lambda>s. s) orders_request = ''status=open&contract=BTC_USDT''
   \<and> stringify_in_key_order (sort_key fst [(''status'', ''open''), (''contract'', ''BTC_USDT'')]) =
       ''contract=BTC_USDT&status=open''
   \<and> signed_params stringify_in_key_order (\<lambda>s. s) orders_request \<noteq>
       stringify_in_key_order (sort_key fst [(''status'', ''open''), (''contract'', ''BTC_USDT'')])"
  by (simp add: signed_params_def stringify_in_key_order_def orders_request_def)

text \<open>
  C2, amended. For a request that is not public, with a method, a path, query params and
  a body that is absent or true in JavaScript (every object and array is), signed with a
  key and a secret that are present: the string to sign is the upper-cased method, /api/v4
  followed by the path, the decoded query string as the serialiser wrote it, the hex
  SHA-512 of the JSON body (of the empty string without body) and the decimal timestamp,
  joined by newlines; and the request goes out with the headers KEY (the key), SIGN (the
  hex HMAC-SHA-512 of that string under the secret) and Timestamp (the timestamp, a number).
\<close>

theorem signing_headers:
  assumes "\<not> is_public cfg"
    and "secret options = Some sec" and "key options = Some k"
    and "http_method cfg = Some m" and "m \<noteq> []"
    and "url cfg = Some path"
    and "params cfg = Some ps"
    and "data cfg = body" and "case body of None \<Rightarrow> True | Some b \<Rightarrow> truthy b"
    and "canonical =
           toUpperCase m @ newline @ ''/api/v4'' @ path @ newline
           @ decodeURIComponent ext (qs_stringify ext ps) @ newline
           @ sha512_hex ext (case body of None \<Rightarrow> [] | Some b \<Rightarrow> JSON_stringify ext b) @ newline
           @ string_of_nat now"
  shows "toSign ext cfg now = canonical
     \<and> (\<exists>cfg'. interceptor ext options now cfg = Inr cfg'
          \<and> map_of (headers cfg') ''KEY'' = Some (HString k)
          \<and> map_of (headers cfg') ''SIGN'' = Some (HString (hmac_sha512_hex ext sec canonical))
          \<and> map_of (headers cfg') ''Timestamp'' = Some (HNumber now))"
proof -
  have upper: "toUpperCase m \<noteq> []"
    using assms(5) by (simp add: toUpperCase_def)
  have hashed: "(case data cfg of None \<Rightarrow> [] | Some d \<Rightarrow> if truthy d then JSON_stringify ext d else []) =
      (case body of None \<Rightarrow> [] | Some b \<Rightarrow> JSON_stringify ext b)"
    using assms(8,9) by (simp split: option.splits)
  have ts: "toSign ext cfg now = canonical"
    unfolding toSign_def Let_def hashed
    using upper by (simp add: assms(4,6,7,10) signed_params_def)
  have "interceptor ext options now cfg =
      Inr (cfg\<lparr>headers :=
               AList.update ''Timestamp'' (HNumber now)
                 (AList.update ''SIGN'' (HString (hmac_sha512_hex ext sec canonical))
                   (AList.update ''KEY'' (HString k) (headers cfg))),
             timeout := Some (case recvWindow options of None \<Rightarrow> RECV_WINDOW | Some w \<Rightarrow> w)\<rparr>)"
    using assms(1-3) by (simp add: interceptor_def Let_def ts)
  then show ?thesis
    using ts by (simp add: AList.update_conv')
qed


theorem signing_headers_witness:
  "\<not> is_public orders_request
   \<and> secret demo_options = Some ''my-secret'' \<and> key demo_options = Some ''my-key''
   \<and> http_method orders_request = Some ''get'' \<and> ''get'' \<noteq> []
   \<and> data orders_request = None
   \<and> toSign tagging_externals orders_request 1700000000 =
       ''GET'' @ newline @ ''/api/v4/futures/usdt/orders'' @ newline
       @ ''status=open&contract=BTC_USDT'' @ newline @ ''sha512()'' @ newline @ ''1700000000''
   \<and> response_header (interceptor tagging_externals demo_options 1700000000 orders_request) ''KEY'' =
       Some (HString ''my-key'')
   \<and> response_header (interceptor tagging_externals demo_options 1700000000 orders_request) ''Timestamp'' =
       Some (HNumber 1700000000)
   \<and> response_header (interceptor tagging_externals demo_options 1700000000 orders_request) ''SIGN'' =
       Some (HString (hmac_sha512_hex tagging_externals ''my-secret''
         (toSign tagging_externals orders_request 1700000000)))"
proof -
  have k: "key demo_options = Some ''my-key''"
    by (simp add: demo_options_def)
  have m: "http_method orders_request = Some ''get''" and ne: "''get'' \<noteq> []"
    and u: "url orders_request = Some ''/futures/usdt/orders''"
    and p: "params orders_request = Some [(''status'', ''open''), (''contract'', ''BTC_USDT'')]"
    and d: "data orders_request = None"
    by (simp_all add: orders_request_def)
  have t: "case None :: json option of None \<Rightarrow> True | Some b \<Rightarrow> truthy b"
    by simp
  from signing_headers [where ext = tagging_externals and now = 1700000000,
      OF orders_request_private demo_secret k m ne u p d t refl]
  obtain c where ts: "toSign tagging_externals orders_request 1700000000 =
        toUpperCase ''get'' @ newline @ ''/api/v4'' @ ''/futures/usdt/orders'' @ newline
        @ decodeURIComponent tagging_externals
            (qs_stringify tagging_externals [(''status'', ''open''), (''contract'', ''BTC_USDT'')])
        @ newline
        @ sha512_hex tagging_externals (case None of None \<Rightarrow> [] | Some b \<Rightarrow> JSON_stringify tagging_externals b)
        @ newline @ string_of_nat 1700000000"
    and c: "interceptor tagging_externals demo_options 1700000000 orders_request = Inr c"
      "map_of (headers c) ''KEY'' = Some (HString ''my-key'')"
      "map_of (headers c) ''SIGN'' = Some (HString (hmac_sha512_hex tagging_externals ''my-secret''
         (toSign tagging_externals orders_request 1700000000)))"
      "map_of (headers c) ''Timestamp'' = Some (HNumber 1700000000)"
    by auto
  have h: "response_header (interceptor tagging_externals demo_options 1700000000 orders_request) ''KEY'' =
       Some (HString ''my-key'')"
    "response_header (interceptor tagging_externals demo_options 1700000000 orders_request) ''Timestamp'' =
       Some (HNumber 1700000000)"
    "response_header (interceptor tagging_externals demo_options 1700000000 orders_request) ''SIGN'' =
       Some (HString (hmac_sha512_hex tagging_externals ''my-secret''
         (toSign tagging_externals orders_request 1700000000)))"
    by (simp_all add: response_header_def c)
  from orders_request_private demo_secret k m ne d toSign_orders_request h show ?thesis
    by blast
qed





end
